theory Spec2Isabelle
  imports Main "HOL-Library.Sublist"
begin

section \<open>The login flow of \<^verbatim>\<open>src/login.ts\<close>\<close>

text \<open>
  The class \<^verbatim>\<open>Login\<close> drives a sequence of HTTP requests through a \<^verbatim>\<open>Got\<close> client and two
  collaborators (the manual CAPTCHA channel and the TOTP generator). Every such call is an
  effect on the outside world, so the model threads a \<^emph>\<open>trace\<close> of the calls issued so far
  through every method, and takes the outside world as a parameter: a record of handlers
  that answer each call, given the trace of what was issued before it. A handler answers
  with \<open>Inr\<close> a value when the awaited promise resolves and with \<open>Inl\<close> the thrown value
  when it rejects. A method returns the pair of its outcome and the extended trace.

  The calls to the logger \<^verbatim>\<open>this.L\<close> are left out: no value they return is used.
  The types of \<^verbatim>\<open>./interfaces/types\<close> are taken as the bodies of the responses that are
  requested at those types: the model keeps the fields that \<^verbatim>\<open>login.ts\<close> reads or writes.

  The recursion of \<^verbatim>\<open>login\<close> is guarded by a comparison of JavaScript numbers, which does
  not stop every chain of retries; \<open>login\<close> is therefore a partial function, and \<open>None\<close> is
  the call that never returns.
\<close>

subsection \<open>JavaScript numbers and JSON values\<close>

text \<open>
  A JavaScript number is a double. The model has \<^verbatim>\<open>NaN\<close>, the two infinities, and the
  doubles whose value is an integer: \<open>Num n\<close> is the double of value \<open>n\<close>. Doubles with a
  fractional part, and integers that no double has, are outside the model.
\<close>

datatype js_number = NaN | PosInfinity | NegInfinity | Num int

text \<open>\<^verbatim>\<open>x > k\<close> for an integer literal \<open>k\<close>: every comparison with \<^verbatim>\<open>NaN\<close> is false.\<close>

fun js_gt :: "js_number \<Rightarrow> int \<Rightarrow> bool" where
  "js_gt NaN k = False"
| "js_gt PosInfinity k = True"
| "js_gt NegInfinity k = False"
| "js_gt (Num n) k = (n > k)"

text \<open>
  \<^verbatim>\<open>x + 1\<close>, rounded to the nearest double, ties to the even mantissa. Between \<open>-2^53\<close> and
  \<open>2^53\<close> the sum is exact. From there to \<open>2^54\<close> in magnitude the doubles are the even
  integers, so that \<open>n + 1\<close> lies halfway between \<open>n\<close> and \<open>n + 2\<close> and the one that is a
  multiple of 4 is taken. Beyond, the doubles are at least 4 apart and the sum rounds back
  to \<open>n\<close>.
\<close>

definition round_add1 :: "int \<Rightarrow> int" where
  "round_add1 n =
     (if - (2 ^ 53) \<le> n \<and> n < 2 ^ 53 then n + 1
      else if - (2 ^ 54) < n \<and> n < 2 ^ 54 then (if n mod 4 = 0 then n else n + 2)
      else n)"

fun js_add1 :: "js_number \<Rightarrow> js_number" where
  "js_add1 NaN = NaN"
| "js_add1 PosInfinity = PosInfinity"
| "js_add1 NegInfinity = NegInfinity"
| "js_add1 (Num n) = Num (round_add1 n)"

text \<open>
  A value parsed from JSON. An object is the list of its members in the order of the text.
\<close>

datatype json =
    JNull
  | JBool bool
  | JNumber js_number
  | JString string
  | JArray "json list"
  | JObject "(string \<times> json) list"

subsection \<open>Values thrown and request bodies\<close>

text \<open>
  The body of an error response, as far as the catch block of \<^verbatim>\<open>login\<close> reads it: its
  member \<^verbatim>\<open>errorCode\<close>, which is absent (\<open>None\<close>) or any JSON value. A body that is not an
  object has no such member.
\<close>

record response_body =
  errorCode :: "json option"

record http_response =
  statusCode :: nat
  body :: "response_body option"

text \<open>
  A thrown value: \<^verbatim>\<open>new Error(msg)\<close>, a \<^verbatim>\<open>TypeError\<close> of the runtime, or the error of the
  HTTP client, whose \<^verbatim>\<open>response\<close> is absent when no response arrived.
\<close>

datatype js_error =
    Error string
  | TypeError string
  | RequestError "http_response option"

record LoginBody =
  lb_password :: string
  lb_rememberMe :: bool
  lb_captcha :: string
  lb_email :: string

record MFABody =
  mfa_code :: string
  mfa_method :: string
  mfa_rememberDevice :: bool

record ArkoseData =
  ad_blob :: string

record ReputationData =
  rd_arkose_data :: ArkoseData

record RedirectResponse =
  rr_sid :: "string option"

text \<open>The member of the enum of \<^verbatim>\<open>./captcha\<close> that this file uses.\<close>

datatype EpicArkosePublicKey = LOGIN

subsection \<open>Calls on the outside world\<close>

datatype event =
    GET_CSRF_ENDPOINT
  | GET_REPUTATION_ENDPOINT
  | TOTP_GENERATE string
  | POST_MFA_LOGIN_ENDPOINT MFABody string
  | POST_EMAIL_VERIFY string string
  | POST_LOGIN_ENDPOINT LoginBody string
  | NOTIFY_MANUAL_CAPTCHA EpicArkosePublicKey "string option"
  | GET_STORE_HOMEPAGE
  | GET_REDIRECT_ENDPOINT string
  | GET_SET_SID_ENDPOINT string

type_synonym trace = "event list"

text \<open>
  The answers of the outside world. The CSRF endpoint answers with the cookies of its
  \<^verbatim>\<open>set-cookie\<close> headers, as pairs of name and value in header order. The second argument
  of the POST handlers is the \<^verbatim>\<open>x-xsrf-token\<close> header.
\<close>

record world =
  on_get_csrf :: "trace \<Rightarrow> js_error + (string \<times> string) list"
  on_get_reputation :: "trace \<Rightarrow> js_error + ReputationData"
  on_totp_generate :: "trace \<Rightarrow> string \<Rightarrow> js_error + string"
  on_post_mfa :: "trace \<Rightarrow> MFABody \<Rightarrow> string \<Rightarrow> js_error + unit"
  on_post_verify :: "trace \<Rightarrow> string \<Rightarrow> string \<Rightarrow> js_error + unit"
  on_post_login :: "trace \<Rightarrow> LoginBody \<Rightarrow> string \<Rightarrow> js_error + unit"
  on_notify_captcha :: "trace \<Rightarrow> EpicArkosePublicKey \<Rightarrow> string option \<Rightarrow> js_error + string"
  on_get_store_homepage :: "trace \<Rightarrow> js_error + unit"
  on_get_redirect :: "trace \<Rightarrow> string \<Rightarrow> js_error + RedirectResponse"
  on_get_set_sid :: "trace \<Rightarrow> string \<Rightarrow> js_error + unit"

subsection \<open>JavaScript helpers\<close>

text \<open>\<^verbatim>\<open>s.includes(sub)\<close>: \<open>sub\<close> occurs in \<open>s\<close> as a contiguous substring.\<close>

fun str_includes :: "string \<Rightarrow> string \<Rightarrow> bool" where
  "str_includes [] sub = (sub = [])"
| "str_includes (c # cs) sub = (prefix sub (c # cs) \<or> str_includes cs sub)"

text \<open>
  Truthiness of a JSON value: \<^verbatim>\<open>null\<close>, \<^verbatim>\<open>false\<close>, \<^verbatim>\<open>0\<close>, \<^verbatim>\<open>NaN\<close> and the empty string are
  falsy, every other value is truthy.
\<close>

fun js_truthy :: "json \<Rightarrow> bool" where
  "js_truthy JNull = False"
| "js_truthy (JBool b) = b"
| "js_truthy (JNumber x) = (x \<noteq> Num 0 \<and> x \<noteq> NaN)"
| "js_truthy (JString s) = (s \<noteq> [])"
| "js_truthy (JArray xs) = True"
| "js_truthy (JObject ms) = True"

text \<open>
  \<^verbatim>\<open>v.includes(sub)\<close> on a truthy JSON value \<open>v\<close> and a string \<open>sub\<close>. On a string it is the
  substring test, on an array the test whether \<open>sub\<close> is one of its elements. A number, a
  boolean or an object has no method \<^verbatim>\<open>includes\<close> (a member of that name in a JSON object
  is not a function), and the call throws a \<^verbatim>\<open>TypeError\<close>.
\<close>

fun js_includes :: "json \<Rightarrow> string \<Rightarrow> js_error + bool" where
  "js_includes (JString s) sub = Inr (str_includes s sub)"
| "js_includes (JArray xs) sub = Inr (JString sub \<in> set xs)"
| "js_includes v sub = Inl (TypeError ''e.response.body.errorCode.includes is not a function'')"

text \<open>
  Truthiness of an optional string: \<^verbatim>\<open>undefined\<close>, \<^verbatim>\<open>null\<close> and the empty string are falsy.
  \<open>truthy\<close> returns the string when it is truthy.
\<close>

fun truthy :: "string option \<Rightarrow> string option" where
  "truthy None = None"
| "truthy (Some s) = (if s = [] then None else Some s)"

text \<open>A parameter with a default value: the default replaces \<^verbatim>\<open>undefined\<close>.\<close>

fun default_arg :: "'a \<Rightarrow> 'a option \<Rightarrow> 'a" where
  "default_arg d None = d"
| "default_arg d (Some v) = v"

text \<open>
  \<^verbatim>\<open>cookieParser(headers, { map: true })\<close> builds an object keyed by cookie name; a later
  cookie of the same name replaces an earlier one. Reading \<^verbatim>\<open>.value\<close> of a cookie that is
  not there throws a \<^verbatim>\<open>TypeError\<close> (see \<open>getCsrf\<close> below).
\<close>

definition cookieParser :: "(string \<times> string) list \<Rightarrow> string \<rightharpoonup> string" where
  "cookieParser cookies = map_of (rev cookies)"

text \<open>
  The guard \<^verbatim>\<open>e.response && e.response.body && e.response.body.errorCode\<close> of the catch
  block: the error code when all three are truthy.
\<close>

fun error_code :: "js_error \<Rightarrow> json option" where
  "error_code (RequestError (Some r)) =
     (case body r of
        None \<Rightarrow> None
      | Some b \<Rightarrow>
          (case errorCode b of
             None \<Rightarrow> None
           | Some v \<Rightarrow> if js_truthy v then Some v else None))"
| "error_code _ = None"

definition CAPTCHA_INVALID :: string where
  "CAPTCHA_INVALID = ''errors.com.epicgames.accountportal.captcha_invalid''"

definition TWO_FACTOR_REQUIRED :: string where
  "TWO_FACTOR_REQUIRED = ''errors.com.epicgames.common.two_factor_authentication.required''"

subsection \<open>The methods of \<^verbatim>\<open>Login\<close>\<close>

definition getCsrf :: "world \<Rightarrow> trace \<Rightarrow> (js_error + string) \<times> trace" where
  "getCsrf w tr =
     (let tr1 = tr @ [GET_CSRF_ENDPOINT] in
      case on_get_csrf w tr of
        Inl e \<Rightarrow> (Inl e, tr1)
      | Inr cookies \<Rightarrow>
          (case cookieParser cookies ''XSRF-TOKEN'' of
             None \<Rightarrow> (Inl (TypeError ''Cannot read property 'value' of undefined''), tr1)
           | Some v \<Rightarrow> (Inr v, tr1)))"

definition getReputation :: "world \<Rightarrow> trace \<Rightarrow> (js_error + ReputationData) \<times> trace" where
  "getReputation w tr =
     (let tr1 = tr @ [GET_REPUTATION_ENDPOINT] in
      case on_get_reputation w tr of
        Inl e \<Rightarrow> (Inl e, tr1)
      | Inr resp_body \<Rightarrow> (Inr resp_body, tr1))"

definition loginMFA :: "world \<Rightarrow> string option \<Rightarrow> trace \<Rightarrow> (js_error + unit) \<times> trace" where
  "loginMFA w totpSecret tr =
     (case truthy totpSecret of
        None \<Rightarrow> (Inl (Error ''TOTP required for MFA login''), tr)
      | Some secret \<Rightarrow>
          (case getCsrf w tr of
             (Inl e, tr1) \<Rightarrow> (Inl e, tr1)
           | (Inr csrfToken, tr1) \<Rightarrow>
               (let tr2 = tr1 @ [TOTP_GENERATE secret] in
                case on_totp_generate w tr1 secret of
                  Inl e \<Rightarrow> (Inl e, tr2)
                | Inr code \<Rightarrow>
                    (let mfaRequest = \<lparr>mfa_code = code, mfa_method = ''authenticator'',
                                        mfa_rememberDevice = True\<rparr>;
                         tr3 = tr2 @ [POST_MFA_LOGIN_ENDPOINT mfaRequest csrfToken] in
                     case on_post_mfa w tr2 mfaRequest csrfToken of
                       Inl e \<Rightarrow> (Inl e, tr3)
                     | Inr _ \<Rightarrow> (Inr (), tr3)))))"

definition sendVerify :: "world \<Rightarrow> string \<Rightarrow> trace \<Rightarrow> (js_error + unit) \<times> trace" where
  "sendVerify w code tr =
     (case getCsrf w tr of
        (Inl e, tr1) \<Rightarrow> (Inl e, tr1)
      | (Inr csrfToken, tr1) \<Rightarrow>
          (let tr2 = tr1 @ [POST_EMAIL_VERIFY code csrfToken] in
           case on_post_verify w tr1 code csrfToken of
             Inl e \<Rightarrow> (Inl e, tr2)
           | Inr _ \<Rightarrow> (Inr (), tr2)))"

text \<open>
  \<^verbatim>\<open>login(email, password, captcha = '', totp = '', blob?, attempt = 0)\<close>. The four
  optional parameters are options; the recursive calls pass all of them. The two comparisons
  \<^verbatim>\<open>===\<close> of the error code with a string hold for that string only.
\<close>

partial_function (option) login ::
  "world \<Rightarrow> string \<Rightarrow> string \<Rightarrow> string option \<Rightarrow> string option \<Rightarrow> string option
     \<Rightarrow> js_number option \<Rightarrow> trace \<Rightarrow> ((js_error + unit) \<times> trace) option" where
  "login w email password captcha_opt totp_opt blob attempt_opt tr =
     (let captcha = default_arg [] captcha_opt;
          totp = default_arg [] totp_opt;
          attempt = default_arg (Num 0) attempt_opt in
      case getCsrf w tr of
        (Inl e, tr1) \<Rightarrow> Some (Inl e, tr1)
      | (Inr csrfToken, tr1) \<Rightarrow>
          if js_gt attempt 5 then Some (Inl (Error ''Too many login attempts''), tr1)
          else
            (let loginBody = \<lparr>lb_password = password, lb_rememberMe = True,
                               lb_captcha = captcha, lb_email = email\<rparr>;
                 tr2 = tr1 @ [POST_LOGIN_ENDPOINT loginBody csrfToken] in
             case on_post_login w tr1 loginBody csrfToken of
               Inr _ \<Rightarrow> Some (Inr (), tr2)
             | Inl e \<Rightarrow>
                 (case error_code e of
                    Some ec \<Rightarrow>
                      (case js_includes ec ''session_invalidated'' of
                         Inl type_error \<Rightarrow> Some (Inl type_error, tr2)
                       | Inr found \<Rightarrow>
                           if found then
                             login w email password (Some captcha) (Some totp) blob
                               (Some (js_add1 attempt)) tr2
                           else if ec = JString CAPTCHA_INVALID then
                             (let tr3 = tr2 @ [NOTIFY_MANUAL_CAPTCHA LOGIN blob] in
                              case on_notify_captcha w tr2 LOGIN blob of
                                Inl e' \<Rightarrow> Some (Inl e', tr3)
                              | Inr captchaToken \<Rightarrow>
                                  login w email password (Some captchaToken) (Some totp) blob
                                    (Some (js_add1 attempt)) tr3)
                           else if ec = JString TWO_FACTOR_REQUIRED then
                             Some (loginMFA w (Some totp) tr2)
                           else Some (Inl e, tr2))
                  | None \<Rightarrow> Some (Inl e, tr2))))"

declare login.simps [code]

definition getStoreToken :: "world \<Rightarrow> trace \<Rightarrow> (js_error + unit) \<times> trace" where
  "getStoreToken w tr =
     (let tr1 = tr @ [GET_STORE_HOMEPAGE] in
      case on_get_store_homepage w tr of
        Inl e \<Rightarrow> (Inl e, tr1)
      | Inr _ \<Rightarrow> (Inr (), tr1))"

definition refreshAndSid :: "world \<Rightarrow> bool \<Rightarrow> trace \<Rightarrow> (js_error + bool) \<times> trace" where
  "refreshAndSid w error tr =
     (case getCsrf w tr of
        (Inl e, tr1) \<Rightarrow> (Inl e, tr1)
      | (Inr csrfToken, tr1) \<Rightarrow>
          (let tr2 = tr1 @ [GET_REDIRECT_ENDPOINT csrfToken] in
           case on_get_redirect w tr1 csrfToken of
             Inl e \<Rightarrow> (Inl e, tr2)
           | Inr redirectResp \<Rightarrow>
               (case truthy (rr_sid redirectResp) of
                  None \<Rightarrow>
                    if error then (Inl (Error ''Sid returned null''), tr2)
                    else (Inr False, tr2)
                | Some s \<Rightarrow>
                    (let tr3 = tr2 @ [GET_SET_SID_ENDPOINT s] in
                     case on_get_set_sid w tr2 s of
                       Inl e \<Rightarrow> (Inl e, tr3)
                     | Inr _ \<Rightarrow>
                         (case getStoreToken w tr3 of
                            (Inl e, tr4) \<Rightarrow> (Inl e, tr4)
                          | (Inr _, tr4) \<Rightarrow> (Inr True, tr4))))))"

text \<open>
  \<^verbatim>\<open>fullLogin(email, password, totp)\<close>: the defaults of its parameters come from the
  process configuration, so the model takes the three values from its caller.
\<close>

definition fullLogin ::
  "world \<Rightarrow> string \<Rightarrow> string \<Rightarrow> string option \<Rightarrow> trace
     \<Rightarrow> ((js_error + unit) \<times> trace) option" where
  "fullLogin w email password totp tr =
     (case refreshAndSid w False tr of
        (Inl e, tr1) \<Rightarrow> Some (Inl e, tr1)
      | (Inr True, tr1) \<Rightarrow> Some (Inr (), tr1)
      | (Inr False, tr1) \<Rightarrow>
          (case getReputation w tr1 of
             (Inl e, tr2) \<Rightarrow> Some (Inl e, tr2)
           | (Inr reputation, tr2) \<Rightarrow>
               (case login w email password (Some []) totp
                       (Some (ad_blob (rd_arkose_data reputation))) None tr2 of
                  None \<Rightarrow> None
                | Some (Inl e, tr3) \<Rightarrow> Some (Inl e, tr3)
                | Some (Inr _, tr3) \<Rightarrow>
                    (case refreshAndSid w True tr3 of
                       (Inl e, tr4) \<Rightarrow> Some (Inl e, tr4)
                     | (Inr _, tr4) \<Rightarrow> Some (Inr (), tr4)))))"

subsection \<open>Observations on traces\<close>

text \<open>The credential POSTs of a trace, and its calls of the second factor.\<close>

fun is_login_post :: "event \<Rightarrow> bool" where
  "is_login_post (POST_LOGIN_ENDPOINT _ _) = True"
| "is_login_post _ = False"

definition login_posts :: "trace \<Rightarrow> nat" where
  "login_posts tr = length (filter is_login_post tr)"

fun is_mfa_call :: "event \<Rightarrow> bool" where
  "is_mfa_call (TOTP_GENERATE _) = True"
| "is_mfa_call (POST_MFA_LOGIN_ENDPOINT _ _) = True"
| "is_mfa_call _ = False"

definition mfa_calls :: "trace \<Rightarrow> event list" where
  "mfa_calls tr = filter is_mfa_call tr"

text \<open>
  The answer to a credential POST is a failure whose error code passes the guard of the
  catch block and the test \<^verbatim>\<open>includes('session_invalidated')\<close>.
\<close>

fun is_session_invalidated :: "js_error + unit \<Rightarrow> bool" where
  "is_session_invalidated (Inl e) =
     (case error_code e of
        None \<Rightarrow> False
      | Some ec \<Rightarrow> js_includes ec ''session_invalidated'' = Inr True)"
| "is_session_invalidated (Inr _) = False"

subsection \<open>Concrete worlds\<close>

text \<open>
  A world in which every call succeeds, and variants of it in which one endpoint
  misbehaves. \<open>api_error\<close> is the error of the HTTP client for a response whose JSON body
  carries the given \<^verbatim>\<open>errorCode\<close>.
\<close>

definition w_ok :: world where
  "w_ok =
     \<lparr>on_get_csrf = (\<lambda>tr. Inr [(''XSRF-TOKEN'', ''abc'')]),
      on_get_reputation = (\<lambda>tr. Inr \<lparr>rd_arkose_data = \<lparr>ad_blob = ''blob''\<rparr>\<rparr>),
      on_totp_generate = (\<lambda>tr secret. Inr ''123456''),
      on_post_mfa = (\<lambda>tr m tok. Inr ()),
      on_post_verify = (\<lambda>tr code tok. Inr ()),
      on_post_login = (\<lambda>tr lb tok. Inr ()),
      on_notify_captcha = (\<lambda>tr k blob. Inr ''solved''),
      on_get_store_homepage = (\<lambda>tr. Inr ()),
      on_get_redirect = (\<lambda>tr tok. Inr \<lparr>rr_sid = Some ''sid''\<rparr>),
      on_get_set_sid = (\<lambda>tr s. Inr ())\<rparr>"

definition api_error :: "json \<Rightarrow> js_error" where
  "api_error ec = RequestError (Some \<lparr>statusCode = 400, body = Some \<lparr>errorCode = Some ec\<rparr>\<rparr>)"

definition w_csrf_down :: world where
  "w_csrf_down = w_ok\<lparr>on_get_csrf := (\<lambda>tr. Inl (RequestError None))\<rparr>"

definition w_session_invalidated :: world where
  "w_session_invalidated =
     w_ok\<lparr>on_post_login :=
            (\<lambda>tr lb tok. Inl (api_error (JString ''errors.com.epicgames.accountportal.session_invalidated'')))\<rparr>"

definition w_captcha :: world where
  "w_captcha =
     w_ok\<lparr>on_post_login :=
            (\<lambda>tr lb tok. if lb_captcha lb = [] then Inl (api_error (JString CAPTCHA_INVALID)) else Inr ())\<rparr>"

definition w_two_factor :: world where
  "w_two_factor = w_ok\<lparr>on_post_login := (\<lambda>tr lb tok. Inl (api_error (JString TWO_FACTOR_REQUIRED)))\<rparr>"

definition w_bad_credentials :: world where
  "w_bad_credentials =
     w_ok\<lparr>on_post_login :=
            (\<lambda>tr lb tok. Inl (api_error (JString ''errors.com.epicgames.account.invalid_account_credentials'')))\<rparr>"

definition w_network_error :: world where
  "w_network_error = w_ok\<lparr>on_post_login := (\<lambda>tr lb tok. Inl (RequestError None))\<rparr>"

text \<open>A server that sends a number as error code.\<close>

definition w_numeric_code :: world where
  "w_numeric_code =
     w_ok\<lparr>on_post_login := (\<lambda>tr lb tok. Inl (api_error (JNumber (Num 18031))))\<rparr>"

text \<open>A server that invalidates the session at the first seven POSTs and accepts the eighth.\<close>

definition w_invalidated_seven_times :: world where
  "w_invalidated_seven_times =
     w_ok\<lparr>on_post_login :=
            (\<lambda>tr lb tok.
               if login_posts tr < 7
               then Inl (api_error (JString ''errors.com.epicgames.accountportal.session_invalidated''))
               else Inr ())\<rparr>"

text \<open>
  A server that invalidates the session at the first POST and demands the second factor
  from then on.
\<close>

definition w_invalidated_then_two_factor :: world where
  "w_invalidated_then_two_factor =
     w_ok\<lparr>on_post_login :=
            (\<lambda>tr lb tok.
               if login_posts tr = 0
               then Inl (api_error (JString ''errors.com.epicgames.accountportal.session_invalidated''))
               else Inl (api_error (JString TWO_FACTOR_REQUIRED)))\<rparr>"

definition w_no_sid :: world where
  "w_no_sid = w_ok\<lparr>on_get_redirect := (\<lambda>tr tok. Inr \<lparr>rr_sid = None\<rparr>)\<rparr>"

definition w_fresh :: world where
  "w_fresh =
     w_ok\<lparr>on_get_redirect :=
            (\<lambda>tr tok. if login_posts tr = 0 then Inr \<lparr>rr_sid = None\<rparr>
                       else Inr \<lparr>rr_sid = Some ''sid''\<rparr>)\<rparr>"

section \<open>Properties\<close>

subsection \<open>Helpers\<close>

lemma str_includes_sublist: "str_includes s sub \<longleftrightarrow> sublist sub s"
  by (induction s) (simp_all add: sublist_Cons_right)

lemma getCsrf_trace: "snd (getCsrf w tr) = tr @ [GET_CSRF_ENDPOINT]"
  by (simp add: getCsrf_def Let_def split: sum.splits option.splits)

lemma getCsrf_trace': "getCsrf w tr = (r, tr1) \<Longrightarrow> tr1 = tr @ [GET_CSRF_ENDPOINT]"
  using getCsrf_trace [of w tr] by simp

lemma two_factor_not_session_invalidated:
  "str_includes TWO_FACTOR_REQUIRED ''session_invalidated'' = False"
  by (simp add: TWO_FACTOR_REQUIRED_def)

lemma captcha_not_session_invalidated:
  "str_includes CAPTCHA_INVALID ''session_invalidated'' = False"
  by (simp add: CAPTCHA_INVALID_def)

lemma two_factor_not_captcha: "TWO_FACTOR_REQUIRED \<noteq> CAPTCHA_INVALID"
  by (simp add: CAPTCHA_INVALID_def TWO_FACTOR_REQUIRED_def)

text \<open>The guard of \<open>login\<close>, and one pass through its body when the guard lets it through.\<close>

lemma login_guard:
  assumes "js_gt (default_arg (Num 0) a) 5"
  shows "login w e p c t b a tr =
     Some (case getCsrf w tr of (Inl err, tr1) \<Rightarrow> (Inl err, tr1)
           | (Inr tok, tr1) \<Rightarrow> (Inl (Error ''Too many login attempts''), tr1))"
  using assms by (simp add: login.simps [of w e p c t b a tr] Let_def split: prod.splits sum.splits)

lemma login_csrf_fail:
  assumes "getCsrf w tr = (Inl err, tr1)"
  shows "login w e p c t b a tr = Some (Inl err, tr1)"
  using assms by (simp add: login.simps [of w e p c t b a tr] Let_def)

lemma login_step:
  assumes "getCsrf w tr = (Inr tok, tr1)" and "\<not> js_gt (default_arg (Num 0) a) 5"
  shows "login w e p c t b a tr =
    (let loginBody = \<lparr>lb_password = p, lb_rememberMe = True,
                       lb_captcha = default_arg [] c, lb_email = e\<rparr>;
         tr2 = tr1 @ [POST_LOGIN_ENDPOINT loginBody tok] in
     case on_post_login w tr1 loginBody tok of
       Inr _ \<Rightarrow> Some (Inr (), tr2)
     | Inl err \<Rightarrow>
       (case error_code err of
          Some ec \<Rightarrow>
            (case js_includes ec ''session_invalidated'' of
               Inl type_error \<Rightarrow> Some (Inl type_error, tr2)
             | Inr found \<Rightarrow>
                 if found then
                   login w e p (Some (default_arg [] c)) (Some (default_arg [] t)) b
                     (Some (js_add1 (default_arg (Num 0) a))) tr2
                 else if ec = JString CAPTCHA_INVALID then
                   (let tr3 = tr2 @ [NOTIFY_MANUAL_CAPTCHA LOGIN b] in
                    case on_notify_captcha w tr2 LOGIN b of
                      Inl e' \<Rightarrow> Some (Inl e', tr3)
                    | Inr captchaToken \<Rightarrow>
                        login w e p (Some captchaToken) (Some (default_arg [] t)) b
                          (Some (js_add1 (default_arg (Num 0) a))) tr3)
                 else if ec = JString TWO_FACTOR_REQUIRED then
                   Some (loginMFA w (Some (default_arg [] t)) tr2)
                 else Some (Inl err, tr2))
        | None \<Rightarrow> Some (Inl err, tr2)))"
  using assms by (simp add: login.simps [of w e p c t b a tr] Let_def)

lemma login_posts_simps:
  "login_posts [] = 0"
  "login_posts (ev # tr) = (if is_login_post ev then 1 else 0) + login_posts tr"
  "login_posts (tr @ tr') = login_posts tr + login_posts tr'"
  by (simp_all add: login_posts_def)

lemma loginMFA_login_posts: "login_posts (snd (loginMFA w s tr)) = login_posts tr"
proof (cases "getCsrf w tr")
  case (Pair r tr1)
  then have "tr1 = tr @ [GET_CSRF_ENDPOINT]" by (rule getCsrf_trace')
  with Pair show ?thesis
    by (simp add: loginMFA_def Let_def login_posts_simps split: option.splits sum.splits)
qed

lemma loginMFA_absent:
  "truthy s = None \<Longrightarrow> loginMFA w s tr = (Inl (Error ''TOTP required for MFA login''), tr)"
  by (simp add: loginMFA_def)

lemma loginMFA_prefix: "prefix tr (snd (loginMFA w s tr))"
proof (cases "getCsrf w tr")
  case (Pair r tr1)
  then have "tr1 = tr @ [GET_CSRF_ENDPOINT]" by (rule getCsrf_trace')
  with Pair show ?thesis
    by (simp add: loginMFA_def Let_def split: option.splits sum.splits)
qed

text \<open>
  Every call of \<open>login\<close> ends in one of nine ways; seven of them follow a credential POST,
  which the guard has let through.
\<close>

lemma login_cases
  [case_names csrf_fail too_many ok type_error retry captcha_fail captcha mfa fatal]:
  fixes w e p c t b a tr
  defines "c' \<equiv> default_arg [] c" and "t' \<equiv> default_arg [] t"
    and "a' \<equiv> default_arg (Num 0) a"
  defines "r \<equiv> login w e p c t b a tr"
  assumes "\<And>err. r = Some (Inl err, tr @ [GET_CSRF_ENDPOINT]) \<Longrightarrow> thesis"
    and "js_gt a' 5 \<Longrightarrow>
           r = Some (Inl (Error ''Too many login attempts''), tr @ [GET_CSRF_ENDPOINT])
           \<Longrightarrow> thesis"
    and "\<And>tok lb. \<not> js_gt a' 5 \<Longrightarrow>
           r = Some (Inr (), tr @ [GET_CSRF_ENDPOINT, POST_LOGIN_ENDPOINT lb tok]) \<Longrightarrow> thesis"
    and "\<And>tok lb err. \<not> js_gt a' 5 \<Longrightarrow>
           r = Some (Inl (TypeError err), tr @ [GET_CSRF_ENDPOINT, POST_LOGIN_ENDPOINT lb tok])
           \<Longrightarrow> thesis"
    and "\<And>tok lb. \<not> js_gt a' 5 \<Longrightarrow>
           r = login w e p (Some c') (Some t') b (Some (js_add1 a'))
                 (tr @ [GET_CSRF_ENDPOINT, POST_LOGIN_ENDPOINT lb tok]) \<Longrightarrow> thesis"
    and "\<And>tok lb err. \<not> js_gt a' 5 \<Longrightarrow>
           r = Some (Inl err, tr @ [GET_CSRF_ENDPOINT, POST_LOGIN_ENDPOINT lb tok,
                                     NOTIFY_MANUAL_CAPTCHA LOGIN b]) \<Longrightarrow> thesis"
    and "\<And>tok lb captchaToken. \<not> js_gt a' 5 \<Longrightarrow>
           r = login w e p (Some captchaToken) (Some t') b (Some (js_add1 a'))
                 (tr @ [GET_CSRF_ENDPOINT, POST_LOGIN_ENDPOINT lb tok,
                        NOTIFY_MANUAL_CAPTCHA LOGIN b]) \<Longrightarrow> thesis"
    and "\<And>tok lb. \<not> js_gt a' 5 \<Longrightarrow>
           r = Some (loginMFA w (Some t')
                       (tr @ [GET_CSRF_ENDPOINT, POST_LOGIN_ENDPOINT lb tok])) \<Longrightarrow> thesis"
    and "\<And>tok lb err. \<not> js_gt a' 5 \<Longrightarrow>
           r = Some (Inl err, tr @ [GET_CSRF_ENDPOINT, POST_LOGIN_ENDPOINT lb tok])
           \<Longrightarrow> thesis"
  shows thesis
proof -
  obtain g tr1 where c: "getCsrf w tr = (g, tr1)" by (cases "getCsrf w tr")
  then have tr1: "tr1 = tr @ [GET_CSRF_ENDPOINT]" by (rule getCsrf_trace')
  show thesis
  proof (cases g)
    case (Inl err)
    with c tr1 have "r = Some (Inl err, tr @ [GET_CSRF_ENDPOINT])"
      by (simp add: r_def login_csrf_fail)
    then show thesis by (rule assms(5))
  next
    case (Inr tok)
    with c have c': "getCsrf w tr = (Inr tok, tr1)" by simp
    show thesis
    proof (cases "js_gt a' 5")
      case True
      then have "r = Some (Inl (Error ''Too many login attempts''), tr @ [GET_CSRF_ENDPOINT])"
        using c' tr1 by (simp add: r_def a'_def login_guard)
      with True show thesis by (rule assms(6))
    next
      case False
      then have le: "\<not> js_gt (default_arg (Num 0) a) 5" by (simp add: a'_def)
      note step = login_step [OF c' le, of e p c t b, folded r_def c'_def t'_def a'_def]
      have te: "js_includes ec sub = Inl x \<Longrightarrow> \<exists>m. x = TypeError m" for ec sub x
        by (cases ec) auto
      show thesis
        using step False te
        by (auto simp: Let_def tr1 split: sum.splits option.splits if_splits
                 intro: assms(7-13))
    qed
  qed
qed

text \<open>
  Calls whose attempt is an integer from \<open>-2^53\<close> on. The counter then grows by exactly 1 at
  every retry, so the call returns, after at most \<open>6 - attempt\<close> credential POSTs.
\<close>

lemma js_add1_safe: "- (2 ^ 53) \<le> n \<Longrightarrow> n \<le> 5 \<Longrightarrow> js_add1 (Num n) = Num (n + 1)"
  by (simp add: round_add1_def)

lemma login_returns:
  assumes "default_arg (Num 0) a = Num n" and "- (2 ^ 53) \<le> n"
  shows "\<exists>res tr'. login w e p c t b a tr = Some (res, tr')
           \<and> prefix (tr @ [GET_CSRF_ENDPOINT]) tr'
           \<and> login_posts tr' \<le> login_posts tr + nat (6 - n)"
  using assms
proof (induction "nat (6 - n)" arbitrary: c t a n tr rule: less_induct)
  case less
  note an = less.prems(1) and safe = less.prems(2)
  have rec: "\<exists>res tr'. login w e p c' t' b (Some (js_add1 (Num n))) (tr @ GET_CSRF_ENDPOINT # evs)
                 = Some (res, tr')
               \<and> prefix (tr @ [GET_CSRF_ENDPOINT]) tr'
               \<and> login_posts tr' + 1 \<le> login_posts tr + login_posts evs + nat (6 - n)"
    if "\<not> js_gt (Num n) 5" for c' t' evs
  proof -
    from that have n5: "n \<le> 5" by simp
    have s: "js_add1 (Num n) = Num (n + 1)" using safe n5 by (rule js_add1_safe)
    have "nat (6 - (n + 1)) < nat (6 - n)" using n5 by simp
    from less.hyps [OF this, of "Some (Num (n + 1))" c' t' "tr @ GET_CSRF_ENDPOINT # evs"] safe
    obtain res tr' where
      r: "login w e p c' t' b (Some (Num (n + 1))) (tr @ GET_CSRF_ENDPOINT # evs) = Some (res, tr')"
      and pre: "prefix ((tr @ GET_CSRF_ENDPOINT # evs) @ [GET_CSRF_ENDPOINT]) tr'"
      and le: "login_posts tr' \<le> login_posts (tr @ GET_CSRF_ENDPOINT # evs) + nat (6 - (n + 1))"
      by auto
    have "prefix (tr @ [GET_CSRF_ENDPOINT]) ((tr @ GET_CSRF_ENDPOINT # evs) @ [GET_CSRF_ENDPOINT])"
      by simp
    from this pre have "prefix (tr @ [GET_CSRF_ENDPOINT]) tr'" by (rule prefix_order.trans)
    moreover have "login_posts tr' + 1 \<le> login_posts tr + login_posts evs + nat (6 - n)"
      using le n5 by (simp add: login_posts_simps)
    ultimately show ?thesis using r s by simp
  qed
  show ?case
  proof (cases w e p c t b a tr rule: login_cases)
    case (retry tok lb)
    with rec [of "Some (default_arg [] c)" "Some (default_arg [] t)" "[POST_LOGIN_ENDPOINT lb tok]"]
    show ?thesis using an by (simp add: login_posts_simps)
  next
    case (captcha tok lb captchaToken)
    with rec [of "Some captchaToken" "Some (default_arg [] t)"
                 "[POST_LOGIN_ENDPOINT lb tok, NOTIFY_MANUAL_CAPTCHA LOGIN b]"]
    show ?thesis using an by (simp add: login_posts_simps)
  next
    case (mfa tok lb)
    obtain res tr' where m: "loginMFA w (Some (default_arg [] t))
        (tr @ [GET_CSRF_ENDPOINT, POST_LOGIN_ENDPOINT lb tok]) = (res, tr')"
      by (cases "loginMFA w (Some (default_arg [] t))
        (tr @ [GET_CSRF_ENDPOINT, POST_LOGIN_ENDPOINT lb tok])")
    have "prefix (tr @ [GET_CSRF_ENDPOINT, POST_LOGIN_ENDPOINT lb tok]) tr'"
      using loginMFA_prefix [of "tr @ [GET_CSRF_ENDPOINT, POST_LOGIN_ENDPOINT lb tok]" w
              "Some (default_arg [] t)"] m by simp
    then have "prefix (tr @ [GET_CSRF_ENDPOINT]) tr'"
      by (auto simp: prefix_def)
    moreover have "login_posts tr' = login_posts tr + 1"
      using loginMFA_login_posts [of w "Some (default_arg [] t)"
              "tr @ [GET_CSRF_ENDPOINT, POST_LOGIN_ENDPOINT lb tok]"] m
      by (simp add: login_posts_simps)
    ultimately show ?thesis using mfa m an by simp
  qed (use an in \<open>simp_all add: login_posts_simps\<close>)
qed


text \<open>
  In the same world, a call whose attempt the guard lets through and adding 1 does not
  change never returns.
\<close>

lemma login_never_returns:
  assumes csrf: "\<forall>h. \<not> isl (fst (getCsrf w h))"
    and inv: "\<forall>h lb tk. is_session_invalidated (on_post_login w h lb tk)"
    and stuck: "js_add1 x = x" "\<not> js_gt x 5"
  shows "login w e p c t b (Some x) tr = None"
proof (rule ccontr)
  assume "login w e p c t b (Some x) tr \<noteq> None"
  then obtain y where y: "login w e p c t b (Some x) tr = Some y" by auto
  have "\<not> (w = w \<and> Some x = Some x)"
    apply (rule login.raw_induct
        [where P = "\<lambda>w' e' p' c' t' b' a' tr' y'. \<not> (w' = w \<and> a' = Some x)", OF _ y])
    subgoal premises prems for login' w' e' p' c' t' b' a' tr' y'
    proof
      assume h: "w' = w \<and> a' = Some x"
      obtain g tr1 where g: "getCsrf w tr' = (g, tr1)" by (cases "getCsrf w tr'")
      from csrf g obtain tok where tok: "getCsrf w tr' = (Inr tok, tr1)"
        by (cases g) (auto dest: spec [of _ tr'])
      define lb where "lb = \<lparr>lb_password = p', lb_rememberMe = True,
                              lb_captcha = default_arg [] c', lb_email = e'\<rparr>"
      from inv have "is_session_invalidated (on_post_login w tr1 lb tok)" by blast
      then obtain err ec where post: "on_post_login w tr1 lb tok = Inl err"
        and ec: "error_code err = Some ec"
        and incl: "js_includes ec ''session_invalidated'' = Inr True"
        by (cases "on_post_login w tr1 lb tok") (auto split: option.splits)
      from prems(2) h tok post ec incl stuck
      have "login' w e' p' (Some (default_arg [] c')) (Some (default_arg [] t')) b' (Some x)
              (tr1 @ [POST_LOGIN_ENDPOINT lb tok]) = Some y'"
        by (simp add: Let_def lb_def [symmetric])
      from prems(1) [OF this] show False by simp
    qed
    done
  then show False by simp
qed

text \<open>
  Without a TOTP secret no call of the chain reaches the TOTP generator or the MFA endpoint.
\<close>

lemma login_no_mfa:
  assumes "login w e p c t b a tr = Some r" and "default_arg [] t = []"
  shows "mfa_calls (snd r) = mfa_calls tr"
proof -
  have "default_arg [] t = [] \<longrightarrow> mfa_calls (snd r) = mfa_calls tr"
    apply (rule login.raw_induct
        [where P = "\<lambda>w e p c t b a tr r. default_arg [] t = [] \<longrightarrow> mfa_calls (snd r) = mfa_calls tr",
         OF _ assms(1)])
    subgoal premises prems for login' w e p c t b a tr r
    proof
      assume t: "default_arg [] t = []"
      obtain g tr1 where g: "getCsrf w tr = (g, tr1)" by (cases "getCsrf w tr")
      then have tr1: "tr1 = tr @ [GET_CSRF_ENDPOINT]" by (rule getCsrf_trace')
      have rec: "login' w e p c' (Some []) b a' tr' = Some r \<Longrightarrow> mfa_calls (snd r) = mfa_calls tr'"
        for c' a' tr'
        using prems(1) [of w e p c' "Some []" b a' tr' r] by simp
      have mfa: "loginMFA w (Some []) tr' = (Inl (Error ''TOTP required for MFA login''), tr')"
        for tr'
        by (rule loginMFA_absent) simp
      from prems(2) g tr1 t show "mfa_calls (snd r) = mfa_calls tr"
        by (auto simp: Let_def mfa mfa_calls_def split: sum.splits option.splits if_splits
                 dest!: rec)
    qed
    done
  with assms(2) show ?thesis by simp
qed

subsection \<open>Runs in the concrete worlds\<close>

lemmas worlds = w_ok_def w_csrf_down_def w_session_invalidated_def w_captcha_def
  w_two_factor_def w_bad_credentials_def w_network_error_def w_numeric_code_def
  w_invalidated_seven_times_def w_invalidated_then_two_factor_def w_no_sid_def w_fresh_def
  api_error_def

lemmas run_simps = worlds getCsrf_def cookieParser_def Let_def
  CAPTCHA_INVALID_def TWO_FACTOR_REQUIRED_def round_add1_def

lemma getCsrf_worlds [simp]:
  "getCsrf w_ok tr = (Inr ''abc'', tr @ [GET_CSRF_ENDPOINT])"
  "getCsrf w_session_invalidated tr = (Inr ''abc'', tr @ [GET_CSRF_ENDPOINT])"
  "getCsrf w_captcha tr = (Inr ''abc'', tr @ [GET_CSRF_ENDPOINT])"
  "getCsrf w_two_factor tr = (Inr ''abc'', tr @ [GET_CSRF_ENDPOINT])"
  "getCsrf w_bad_credentials tr = (Inr ''abc'', tr @ [GET_CSRF_ENDPOINT])"
  "getCsrf w_network_error tr = (Inr ''abc'', tr @ [GET_CSRF_ENDPOINT])"
  "getCsrf w_numeric_code tr = (Inr ''abc'', tr @ [GET_CSRF_ENDPOINT])"
  "getCsrf w_invalidated_seven_times tr = (Inr ''abc'', tr @ [GET_CSRF_ENDPOINT])"
  "getCsrf w_invalidated_then_two_factor tr = (Inr ''abc'', tr @ [GET_CSRF_ENDPOINT])"
  "getCsrf w_no_sid tr = (Inr ''abc'', tr @ [GET_CSRF_ENDPOINT])"
  "getCsrf w_fresh tr = (Inr ''abc'', tr @ [GET_CSRF_ENDPOINT])"
  "getCsrf w_csrf_down tr = (Inl (RequestError None), tr @ [GET_CSRF_ENDPOINT])"
  by (simp_all add: getCsrf_def cookieParser_def worlds)

lemma session_invalidated_world:
  "\<forall>h. \<not> isl (fst (getCsrf w_session_invalidated h))"
  "\<forall>h lb tk. is_session_invalidated (on_post_login w_session_invalidated h lb tk)"
  by simp (simp add: worlds)

text \<open>The first POST succeeds: one CSRF fetch and one credential POST, nothing else.\<close>

lemma login_success_first_post:
  "login w_ok ''user@example.com'' ''hunter2'' None None None None [] =
     Some (Inr (),
      [GET_CSRF_ENDPOINT,
       POST_LOGIN_ENDPOINT \<lparr>lb_password = ''hunter2'', lb_rememberMe = True, lb_captcha = [],
                             lb_email = ''user@example.com''\<rparr> ''abc''])"
  by (simp add: login.simps run_simps)

text \<open>
  The server answers \<^verbatim>\<open>captcha_invalid\<close> once, then accepts: two credential POSTs and one
  call of the CAPTCHA channel.
\<close>

lemma captcha_once_then_success:
  "login w_captcha ''user@example.com'' ''hunter2'' None None (Some ''blob'') None [] =
     Some (Inr (),
      [GET_CSRF_ENDPOINT,
       POST_LOGIN_ENDPOINT \<lparr>lb_password = ''hunter2'', lb_rememberMe = True, lb_captcha = [],
                             lb_email = ''user@example.com''\<rparr> ''abc'',
       NOTIFY_MANUAL_CAPTCHA LOGIN (Some ''blob''),
       GET_CSRF_ENDPOINT,
       POST_LOGIN_ENDPOINT \<lparr>lb_password = ''hunter2'', lb_rememberMe = True,
                             lb_captcha = ''solved'', lb_email = ''user@example.com''\<rparr> ''abc''])"
  by (simp add: login.simps run_simps)

text \<open>
  The server invalidates the session at every POST: after six POSTs the seventh call is
  stopped by the guard.
\<close>

lemma session_invalidated_chain:
  "map_option fst (login w_session_invalidated ''user@example.com'' ''hunter2'' None None None
                     None [])
     = Some (Inl (Error ''Too many login attempts'')) \<and>
   map_option (login_posts \<circ> snd)
     (login w_session_invalidated ''user@example.com'' ''hunter2'' None None None None [])
     = Some 6"
  by (simp add: login.simps run_simps login_posts_def)

text \<open>
  In that world a call with attempt \<^verbatim>\<open>NaN\<close>, \<^verbatim>\<open>-Infinity\<close> or \<open>-2^54\<close> never returns: the
  guard is false at every retry.
\<close>

lemma nan_attempt_never_returns:
  "login w_session_invalidated e p c t b (Some NaN) tr = None"
  "login w_session_invalidated e p c t b (Some NegInfinity) tr = None"
  "login w_session_invalidated e p c t b (Some (Num (- (2 ^ 54)))) tr = None"
  by (rule login_never_returns [OF session_invalidated_world]; simp add: round_add1_def)+

text \<open>
  A number as error code: the call of \<^verbatim>\<open>includes\<close> in the catch block throws, and the
  \<^verbatim>\<open>TypeError\<close> replaces the error of the POST.
\<close>

lemma login_type_error_on_number:
  "login w_numeric_code ''user@example.com'' ''hunter2'' None None None None [] =
     Some (Inl (TypeError ''e.response.body.errorCode.includes is not a function''),
      [GET_CSRF_ENDPOINT,
       POST_LOGIN_ENDPOINT \<lparr>lb_password = ''hunter2'', lb_rememberMe = True, lb_captcha = [],
                             lb_email = ''user@example.com''\<rparr> ''abc''])"
  by (simp add: login.simps run_simps)

subsection \<open>The claims\<close>

text \<open>
  Claim C1, as the code has it. A call of \<open>login\<close> with \<open>attempt > 5\<close> always fails and issues
  no credential POST. The CSRF token is fetched before the guard is evaluated: when that
  fetch yields a token the call fails with \<^verbatim>\<open>Too many login attempts\<close>, and when the fetch
  itself fails the call fails with the error of the fetch.
\<close>

theorem C1_attempt_limit_after_csrf:
  assumes "js_gt (default_arg (Num 0) a) 5"
  shows "login w e p c t b a tr =
           Some (case getCsrf w tr of
                   (Inl err, tr1) \<Rightarrow> (Inl err, tr1)
                 | (Inr tok, tr1) \<Rightarrow> (Inl (Error ''Too many login attempts''), tr1))
         \<and> map_option (login_posts \<circ> snd) (login w e p c t b a tr) = Some (login_posts tr)"
proof -
  obtain g tr1 where c: "getCsrf w tr = (g, tr1)" by (cases "getCsrf w tr")
  then have "tr1 = tr @ [GET_CSRF_ENDPOINT]" by (rule getCsrf_trace')
  with c show ?thesis
    by (simp add: login_guard [OF assms] login_posts_simps split: sum.splits)
qed

text \<open>Attempt 6 in the world where every request succeeds.\<close>

theorem C1_attempt_limit_witness:
  "js_gt (default_arg (Num 0) (Some (Num 6))) 5 \<and>
   login w_ok ''user@example.com'' ''hunter2'' None None None (Some (Num 6)) []
     = Some (Inl (Error ''Too many login attempts''), [GET_CSRF_ENDPOINT])"
  using C1_attempt_limit_after_csrf [of "Some (Num 6)" w_ok "''user@example.com''" "''hunter2''"
          None None None "[]"]
  by simp

text \<open>
  Claim C1 as stated says that every call with \<open>attempt > 5\<close> fails with the attempt-limit
  error. With attempt 6 and a CSRF endpoint that cannot be reached, the call fails with the
  error of the CSRF fetch instead.
\<close>

theorem C1_csrf_failure_counterexample:
  "login w_csrf_down ''user@example.com'' ''hunter2'' None None None (Some (Num 6)) []
     = Some (Inl (RequestError None), [GET_CSRF_ENDPOINT])"
  by (simp add: login_guard)

text \<open>
  Claim C2, as the code has it. A call of \<open>login\<close> with \<open>attempt > 5\<close> issues exactly one
  request, the CSRF fetch that precedes the guard, and no other call of any kind.
\<close>

theorem C2_only_csrf_request:
  assumes "js_gt (default_arg (Num 0) a) 5"
  shows "map_option snd (login w e p c t b a tr) = Some (tr @ [GET_CSRF_ENDPOINT])"
proof -
  obtain g tr1 where c: "getCsrf w tr = (g, tr1)" by (cases "getCsrf w tr")
  then have "tr1 = tr @ [GET_CSRF_ENDPOINT]" by (rule getCsrf_trace')
  with c show ?thesis
    by (simp add: login_guard [OF assms] split: sum.splits)
qed

text \<open>Attempt 7 after a reputation fetch: the trace grows by the CSRF fetch only.\<close>

theorem C2_only_csrf_request_witness:
  "js_gt (default_arg (Num 0) (Some (Num 7))) 5 \<and>
   map_option snd
     (login w_two_factor ''user@example.com'' ''hunter2'' (Some ''tok'') None (Some ''blob'')
        (Some (Num 7)) [GET_REPUTATION_ENDPOINT])
     = Some [GET_REPUTATION_ENDPOINT, GET_CSRF_ENDPOINT]"
  using C2_only_csrf_request [of "Some (Num 7)" w_two_factor "''user@example.com''" "''hunter2''"
          "Some ''tok''" None "Some ''blob''" "[GET_REPUTATION_ENDPOINT]"]
  by simp

text \<open>
  Claim C2 as stated says that no request of any kind, the CSRF fetch included, precedes the
  attempt-limit error. With attempt 6 on the empty trace the call ends in the attempt-limit
  error and its trace holds the CSRF fetch.
\<close>

theorem C2_network_hit_counterexample:
  "map_option fst (login w_ok ''user@example.com'' ''hunter2'' None None None (Some (Num 6)) [])
     = Some (Inl (Error ''Too many login attempts'')) \<and>
   map_option snd (login w_ok ''user@example.com'' ''hunter2'' None None None (Some (Num 6)) [])
     = Some [GET_CSRF_ENDPOINT]"
  by (simp add: login_guard)




text \<open>
  Claim C4. When the credential POST of a call fails with the captcha-invalid error code, the
  CAPTCHA channel is called once, with the login key and the blob, right after the failed
  POST. The token it returns is the captcha of the retry, whose attempt is \<open>attempt + 1\<close> and
  whose other inputs are unchanged. When the channel rejects, its error is the outcome.
\<close>

theorem C4_captcha_invalid_retry:
  fixes w e p c t b a tr tok tr1 err
  defines "captcha \<equiv> default_arg [] c" and "totp \<equiv> default_arg [] t"
    and "attempt \<equiv> default_arg (Num 0) a"
  defines "loginBody \<equiv> \<lparr>lb_password = p, lb_rememberMe = True,
                          lb_captcha = captcha, lb_email = e\<rparr>"
  defines "tr2 \<equiv> tr1 @ [POST_LOGIN_ENDPOINT loginBody tok]"
  assumes "getCsrf w tr = (Inr tok, tr1)"
    and "\<not> js_gt attempt 5"
    and "on_post_login w tr1 loginBody tok = Inl err"
    and "error_code err = Some (JString CAPTCHA_INVALID)"
  shows "login w e p c t b a tr =
           (case on_notify_captcha w tr2 LOGIN b of
              Inl e' \<Rightarrow> Some (Inl e', tr2 @ [NOTIFY_MANUAL_CAPTCHA LOGIN b])
            | Inr captchaToken \<Rightarrow>
                login w e p (Some captchaToken) (Some totp) b
                  (Some (js_add1 attempt)) (tr2 @ [NOTIFY_MANUAL_CAPTCHA LOGIN b]))"
  using assms(7-9) unfolding tr2_def loginBody_def captcha_def totp_def attempt_def
  by (simp add: login_step [OF assms(6)] Let_def captcha_not_session_invalidated
        split: sum.splits)

text \<open>The first call in the world that asks for a CAPTCHA as long as none is sent.\<close>

theorem C4_captcha_invalid_retry_witness:
  "getCsrf w_captcha [] = (Inr ''abc'', [GET_CSRF_ENDPOINT]) \<and>
   \<not> js_gt (default_arg (Num 0) None) 5 \<and>
   on_notify_captcha w_captcha
     [GET_CSRF_ENDPOINT, POST_LOGIN_ENDPOINT \<lparr>lb_password = ''hunter2'', lb_rememberMe = True, lb_captcha = [],
                              lb_email = ''user@example.com''\<rparr> ''abc'']
     LOGIN (Some ''blob'') = Inr ''solved'' \<and>
   login w_captcha ''user@example.com'' ''hunter2'' None None (Some ''blob'') None [] =
     login w_captcha ''user@example.com'' ''hunter2'' (Some ''solved'') (Some []) (Some ''blob'')
       (Some (Num 1))
       [GET_CSRF_ENDPOINT, POST_LOGIN_ENDPOINT \<lparr>lb_password = ''hunter2'', lb_rememberMe = True, lb_captcha = [],
                              lb_email = ''user@example.com''\<rparr> ''abc'',
        NOTIFY_MANUAL_CAPTCHA LOGIN (Some ''blob'')]"
proof -
  have h1: "getCsrf w_captcha [] = (Inr ''abc'', [GET_CSRF_ENDPOINT])"
    by simp
  have h2: "\<not> js_gt (default_arg (Num 0) None) 5" by simp
  have h3: "on_post_login w_captcha [GET_CSRF_ENDPOINT]
              \<lparr>lb_password = ''hunter2'', lb_rememberMe = True,
                 lb_captcha = default_arg [] None, lb_email = ''user@example.com''\<rparr> ''abc''
            = Inl (api_error (JString CAPTCHA_INVALID))"
    by (simp add: worlds)
  have h4: "error_code (api_error (JString CAPTCHA_INVALID)) = Some (JString CAPTCHA_INVALID)"
    by (simp add: api_error_def CAPTCHA_INVALID_def)
  have h5: "on_notify_captcha w_captcha
     [GET_CSRF_ENDPOINT, POST_LOGIN_ENDPOINT \<lparr>lb_password = ''hunter2'', lb_rememberMe = True, lb_captcha = [],
                              lb_email = ''user@example.com''\<rparr> ''abc'']
     LOGIN (Some ''blob'') = Inr ''solved''"
    by (simp add: worlds)
  show ?thesis
    using C4_captcha_invalid_retry [OF h1 h2 h3 h4, where t = None and b = "Some ''blob''"] h1 h5
    by (simp add: round_add1_def)
qed

text \<open>
  Claim C5. When the credential POST of a call fails with the two-factor-required error
  code, the outcome of the call is the outcome of one call of \<open>loginMFA\<close> with the totp
  argument, so that a failure of \<open>loginMFA\<close> is the failure of \<open>login\<close>. No further login
  attempt is made: the trace of the call holds exactly one credential POST more than before.
\<close>

theorem C5_two_factor_once:
  fixes w e p c t b a tr tok tr1 err
  defines "captcha \<equiv> default_arg [] c" and "totp \<equiv> default_arg [] t"
    and "attempt \<equiv> default_arg (Num 0) a"
  defines "loginBody \<equiv> \<lparr>lb_password = p, lb_rememberMe = True,
                          lb_captcha = captcha, lb_email = e\<rparr>"
  assumes "getCsrf w tr = (Inr tok, tr1)"
    and "\<not> js_gt attempt 5"
    and "on_post_login w tr1 loginBody tok = Inl err"
    and "error_code err = Some (JString TWO_FACTOR_REQUIRED)"
  shows "login w e p c t b a tr =
           Some (loginMFA w (Some totp) (tr1 @ [POST_LOGIN_ENDPOINT loginBody tok]))
         \<and> map_option (login_posts \<circ> snd) (login w e p c t b a tr) = Some (login_posts tr + 1)"
proof -
  have step: "login w e p c t b a tr =
           Some (loginMFA w (Some totp) (tr1 @ [POST_LOGIN_ENDPOINT loginBody tok]))"
    using assms(6-8) unfolding loginBody_def captcha_def totp_def attempt_def
    by (simp add: login_step [OF assms(5)] Let_def two_factor_not_session_invalidated
          two_factor_not_captcha)
  have "login_posts (snd (loginMFA w (Some totp) (tr1 @ [POST_LOGIN_ENDPOINT loginBody tok])))
          = login_posts tr + 1"
    using getCsrf_trace' [OF assms(5)] by (simp add: loginMFA_login_posts login_posts_simps)
  with step show ?thesis by simp
qed

text \<open>A call with a TOTP secret in the world that always demands the second factor.\<close>

theorem C5_two_factor_once_witness:
  "getCsrf w_two_factor [] = (Inr ''abc'', [GET_CSRF_ENDPOINT]) \<and>
   \<not> js_gt (default_arg (Num 0) None) 5 \<and>
   login w_two_factor ''user@example.com'' ''hunter2'' None (Some ''SECRET'') None None [] =
     Some (Inr (),
      [GET_CSRF_ENDPOINT,
       POST_LOGIN_ENDPOINT \<lparr>lb_password = ''hunter2'', lb_rememberMe = True, lb_captcha = [],
                              lb_email = ''user@example.com''\<rparr> ''abc'',
       GET_CSRF_ENDPOINT,
       TOTP_GENERATE ''SECRET'',
       POST_MFA_LOGIN_ENDPOINT \<lparr>mfa_code = ''123456'', mfa_method = ''authenticator'',
                                 mfa_rememberDevice = True\<rparr> ''abc''])"
proof -
  have h1: "getCsrf w_two_factor [] = (Inr ''abc'', [GET_CSRF_ENDPOINT])"
    by simp
  have h2: "\<not> js_gt (default_arg (Num 0) None) 5" by simp
  have h3: "on_post_login w_two_factor [GET_CSRF_ENDPOINT]
              \<lparr>lb_password = ''hunter2'', lb_rememberMe = True,
                 lb_captcha = default_arg [] None, lb_email = ''user@example.com''\<rparr> ''abc''
            = Inl (api_error (JString TWO_FACTOR_REQUIRED))"
    by (simp add: worlds)
  have h4: "error_code (api_error (JString TWO_FACTOR_REQUIRED))
            = Some (JString TWO_FACTOR_REQUIRED)"
    by (simp add: api_error_def TWO_FACTOR_REQUIRED_def)
  show ?thesis
    using C5_two_factor_once [OF h1 h2 h3 h4, where t = "Some ''SECRET''" and b = None] h1
    by (simp add: loginMFA_def run_simps)
qed

text \<open>
  Claim C6. Without a TOTP secret (the argument is absent, or is the empty string)
  \<open>loginMFA\<close> fails with \<^verbatim>\<open>TOTP required for MFA login\<close> and leaves the trace as it was: no
  CSRF fetch, no MFA POST, no other call.
\<close>

theorem C6_loginMFA_requires_totp:
  "loginMFA w None tr = (Inl (Error ''TOTP required for MFA login''), tr) \<and>
   loginMFA w (Some []) tr = (Inl (Error ''TOTP required for MFA login''), tr)"
  by (simp add: loginMFA_def)

text \<open>
  Claim C7, as the code has it. When the credential POST of a call fails with an error that
  carries no error code (no response, no body, or no truthy \<^verbatim>\<open>errorCode\<close>), or with an error
  code on which \<^verbatim>\<open>includes('session_invalidated')\<close> is false and which is neither the
  captcha-invalid nor the two-factor-required string, the call fails with that same error,
  and its trace ends with the failed POST.
\<close>

theorem C7_unrecognised_error_rethrown:
  fixes w e p c t b a tr tok tr1 err
  defines "captcha \<equiv> default_arg [] c" and "attempt \<equiv> default_arg (Num 0) a"
  defines "loginBody \<equiv> \<lparr>lb_password = p, lb_rememberMe = True,
                          lb_captcha = captcha, lb_email = e\<rparr>"
  assumes "getCsrf w tr = (Inr tok, tr1)"
    and "\<not> js_gt attempt 5"
    and "on_post_login w tr1 loginBody tok = Inl err"
    and "case error_code err of
           None \<Rightarrow> True
         | Some ec \<Rightarrow> js_includes ec ''session_invalidated'' = Inr False
                        \<and> ec \<noteq> JString CAPTCHA_INVALID \<and> ec \<noteq> JString TWO_FACTOR_REQUIRED"
  shows "login w e p c t b a tr = Some (Inl err, tr1 @ [POST_LOGIN_ENDPOINT loginBody tok])"
  using assms(5-7) unfolding loginBody_def captcha_def attempt_def
  by (simp add: login_step [OF assms(4)] Let_def split: option.splits)

text \<open>An unknown error code, and a failure of the network with no response at all.\<close>

theorem C7_unrecognised_error_rethrown_witness:
  "login w_bad_credentials ''user@example.com'' ''hunter2'' None None None None [] =
     Some (Inl (api_error (JString ''errors.com.epicgames.account.invalid_account_credentials'')),
      [GET_CSRF_ENDPOINT, POST_LOGIN_ENDPOINT \<lparr>lb_password = ''hunter2'', lb_rememberMe = True, lb_captcha = [],
                              lb_email = ''user@example.com''\<rparr> ''abc'']) \<and>
   login w_network_error ''user@example.com'' ''hunter2'' None None None None [] =
     Some (Inl (RequestError None),
      [GET_CSRF_ENDPOINT, POST_LOGIN_ENDPOINT \<lparr>lb_password = ''hunter2'', lb_rememberMe = True, lb_captcha = [],
                              lb_email = ''user@example.com''\<rparr> ''abc''])"
proof -
  have h2: "\<not> js_gt (default_arg (Num 0) None) 5" by simp
  have a1: "getCsrf w_bad_credentials [] = (Inr ''abc'', [GET_CSRF_ENDPOINT])"
    by simp
  have a3: "on_post_login w_bad_credentials [GET_CSRF_ENDPOINT]
              \<lparr>lb_password = ''hunter2'', lb_rememberMe = True,
                 lb_captcha = default_arg [] None, lb_email = ''user@example.com''\<rparr> ''abc''
            = Inl (api_error (JString ''errors.com.epicgames.account.invalid_account_credentials''))"
    by (simp add: worlds)
  have a4: "case error_code
                   (api_error (JString ''errors.com.epicgames.account.invalid_account_credentials'')) of
              None \<Rightarrow> True
            | Some ec \<Rightarrow> js_includes ec ''session_invalidated'' = Inr False
                        \<and> ec \<noteq> JString CAPTCHA_INVALID \<and> ec \<noteq> JString TWO_FACTOR_REQUIRED"
    by (simp add: api_error_def CAPTCHA_INVALID_def TWO_FACTOR_REQUIRED_def)
  have b1: "getCsrf w_network_error [] = (Inr ''abc'', [GET_CSRF_ENDPOINT])"
    by simp
  have b3: "on_post_login w_network_error [GET_CSRF_ENDPOINT]
              \<lparr>lb_password = ''hunter2'', lb_rememberMe = True,
                 lb_captcha = default_arg [] None, lb_email = ''user@example.com''\<rparr> ''abc''
            = Inl (RequestError None)"
    by (simp add: worlds)
  have b4: "case error_code (RequestError None) of
              None \<Rightarrow> True
            | Some ec \<Rightarrow> js_includes ec ''session_invalidated'' = Inr False
                        \<and> ec \<noteq> JString CAPTCHA_INVALID \<and> ec \<noteq> JString TWO_FACTOR_REQUIRED"
    by simp
  show ?thesis
    using C7_unrecognised_error_rethrown [OF a1 h2 a3 a4, where t = None and b = None]
      C7_unrecognised_error_rethrown [OF b1 h2 b3 b4, where t = None and b = None]
    by simp
qed

text \<open>
  Claim C7 as stated says that every unrecognised error code is re-thrown unchanged. When
  the server sends the number 18031 as error code, the code passes the guard of the catch
  block, the call of \<^verbatim>\<open>includes\<close> throws, and \<open>login\<close> fails with a \<^verbatim>\<open>TypeError\<close> in place of
  the error of the POST.
\<close>

theorem C7_numeric_code_counterexample:
  "on_post_login w_numeric_code [GET_CSRF_ENDPOINT] \<lparr>lb_password = ''hunter2'', lb_rememberMe = True, lb_captcha = [],
                              lb_email = ''user@example.com''\<rparr> ''abc''
     = Inl (api_error (JNumber (Num 18031))) \<and>
   error_code (api_error (JNumber (Num 18031))) = Some (JNumber (Num 18031)) \<and>
   map_option fst (login w_numeric_code ''user@example.com'' ''hunter2'' None None None None [])
     = Some (Inl (TypeError ''e.response.body.errorCode.includes is not a function'')) \<and>
   TypeError ''e.response.body.errorCode.includes is not a function''
     \<noteq> api_error (JNumber (Num 18031))"
  by (simp add: login.simps run_simps)

text \<open>
  Claim C8. When the redirect response carries no session identifier (\<^verbatim>\<open>sid\<close> is absent or
  empty), \<open>refreshAndSid False\<close> returns \<open>False\<close> and \<open>refreshAndSid True\<close> fails with
  \<^verbatim>\<open>Sid returned null\<close>. In both cases the trace ends with the redirect request: neither the
  request that sets the SID nor the fetch of the store homepage is issued.
\<close>

theorem C8_missing_sid:
  assumes "getCsrf w tr = (Inr tok, tr1)"
    and "on_get_redirect w tr1 tok = Inr redirectResp"
    and "truthy (rr_sid redirectResp) = None"
  shows "refreshAndSid w False tr
           = (Inr False, tr @ [GET_CSRF_ENDPOINT, GET_REDIRECT_ENDPOINT tok])
         \<and> refreshAndSid w True tr
           = (Inl (Error ''Sid returned null''), tr @ [GET_CSRF_ENDPOINT, GET_REDIRECT_ENDPOINT tok])"
  using assms getCsrf_trace' [OF assms(1)]
  by (simp add: refreshAndSid_def Let_def)

text \<open>Both calls in the world whose redirect endpoint never returns a session identifier.\<close>

theorem C8_missing_sid_witness:
  "getCsrf w_no_sid [] = (Inr ''abc'', [GET_CSRF_ENDPOINT]) \<and>
   on_get_redirect w_no_sid [GET_CSRF_ENDPOINT] ''abc'' = Inr \<lparr>rr_sid = None\<rparr> \<and>
   refreshAndSid w_no_sid False [] =
     (Inr False, [GET_CSRF_ENDPOINT, GET_REDIRECT_ENDPOINT ''abc'']) \<and>
   refreshAndSid w_no_sid True [] =
     (Inl (Error ''Sid returned null''), [GET_CSRF_ENDPOINT, GET_REDIRECT_ENDPOINT ''abc''])"
proof -
  have h1: "getCsrf w_no_sid [] = (Inr ''abc'', [GET_CSRF_ENDPOINT])"
    by simp
  have h2: "on_get_redirect w_no_sid [GET_CSRF_ENDPOINT] ''abc'' = Inr \<lparr>rr_sid = None\<rparr>"
    by (simp add: worlds)
  have h3: "truthy (rr_sid \<lparr>rr_sid = None\<rparr>) = None" by simp
  show ?thesis
    using C8_missing_sid [OF h1 h2 h3] h1 h2 by simp
qed

text \<open>
  Claim C9. When the initial \<open>refreshAndSid False\<close> returns \<open>True\<close>, \<open>fullLogin\<close> returns at
  once, on the trace that \<open>refreshAndSid\<close> left. When it returns \<open>False\<close>, \<open>fullLogin\<close> fetches
  the reputation data, then calls \<open>login\<close> with an empty captcha, the blob of the reputation
  data and the default attempt, then calls \<open>refreshAndSid True\<close>; each step runs on the trace
  of the step before it, and the first failure ends the sequence. In both cases \<open>fullLogin\<close>
  returns.
\<close>

theorem C9_fullLogin_sequence:
  assumes "refreshAndSid w False tr = (Inr refreshed, tr1)"
  shows "fullLogin w e p t tr =
           (if refreshed then Some (Inr (), tr1)
            else
              (case getReputation w tr1 of
                 (Inl err, tr2) \<Rightarrow> Some (Inl err, tr2)
               | (Inr reputation, tr2) \<Rightarrow>
                   (case login w e p (Some []) t (Some (ad_blob (rd_arkose_data reputation)))
                           None tr2 of
                      None \<Rightarrow> None
                    | Some (Inl err, tr3) \<Rightarrow> Some (Inl err, tr3)
                    | Some (Inr _, tr3) \<Rightarrow>
                        (case refreshAndSid w True tr3 of
                           (Inl err, tr4) \<Rightarrow> Some (Inl err, tr4)
                         | (Inr _, tr4) \<Rightarrow> Some (Inr (), tr4)))))
         \<and> fullLogin w e p t tr \<noteq> None"
proof
  show eq: "fullLogin w e p t tr =
           (if refreshed then Some (Inr (), tr1)
            else
              (case getReputation w tr1 of
                 (Inl err, tr2) \<Rightarrow> Some (Inl err, tr2)
               | (Inr reputation, tr2) \<Rightarrow>
                   (case login w e p (Some []) t (Some (ad_blob (rd_arkose_data reputation)))
                           None tr2 of
                      None \<Rightarrow> None
                    | Some (Inl err, tr3) \<Rightarrow> Some (Inl err, tr3)
                    | Some (Inr _, tr3) \<Rightarrow>
                        (case refreshAndSid w True tr3 of
                           (Inl err, tr4) \<Rightarrow> Some (Inl err, tr4)
                         | (Inr _, tr4) \<Rightarrow> Some (Inr (), tr4)))))"
    using assms by (simp add: fullLogin_def)
  show "fullLogin w e p t tr \<noteq> None"
  proof (cases refreshed)
    case True
    with eq show ?thesis by simp
  next
    case False
    obtain g tr2 where rep: "getReputation w tr1 = (g, tr2)" by (cases "getReputation w tr1")
    show ?thesis
    proof (cases g)
      case (Inl err)
      with eq False rep show ?thesis by simp
    next
      case (Inr reputation)
      from login_returns [of None 0 w e p "Some []" t
             "Some (ad_blob (rd_arkose_data reputation))" tr2]
      obtain res tr3 where "login w e p (Some []) t (Some (ad_blob (rd_arkose_data reputation)))
                              None tr2 = Some (res, tr3)"
        by auto
      with eq False rep Inr show ?thesis
        by (simp split: sum.splits prod.splits)
    qed
  qed
qed

text \<open>
  A world with a session that can be reused, and a world whose redirect endpoint returns a
  session identifier only after a credential POST.
\<close>

theorem C9_fullLogin_sequence_witness:
  "fullLogin w_ok ''user@example.com'' ''hunter2'' None [] =
     Some (Inr (),
      [GET_CSRF_ENDPOINT, GET_REDIRECT_ENDPOINT ''abc'', GET_SET_SID_ENDPOINT ''sid'',
       GET_STORE_HOMEPAGE]) \<and>
   fullLogin w_fresh ''user@example.com'' ''hunter2'' None [] =
     Some (Inr (),
      [GET_CSRF_ENDPOINT, GET_REDIRECT_ENDPOINT ''abc'',
       GET_REPUTATION_ENDPOINT,
       GET_CSRF_ENDPOINT,
       POST_LOGIN_ENDPOINT \<lparr>lb_password = ''hunter2'', lb_rememberMe = True, lb_captcha = [],
                              lb_email = ''user@example.com''\<rparr> ''abc'',
       GET_CSRF_ENDPOINT, GET_REDIRECT_ENDPOINT ''abc'', GET_SET_SID_ENDPOINT ''sid'',
       GET_STORE_HOMEPAGE])"
proof -
  have h1: "refreshAndSid w_ok False [] =
              (Inr True, [GET_CSRF_ENDPOINT, GET_REDIRECT_ENDPOINT ''abc'',
                          GET_SET_SID_ENDPOINT ''sid'', GET_STORE_HOMEPAGE])"
    by (simp add: refreshAndSid_def getStoreToken_def run_simps)
  have h2: "refreshAndSid w_fresh False [] =
              (Inr False, [GET_CSRF_ENDPOINT, GET_REDIRECT_ENDPOINT ''abc''])"
    by (simp add: refreshAndSid_def getStoreToken_def run_simps login_posts_def)
  show ?thesis
    using conjunct1 [OF C9_fullLogin_sequence [OF h1, where e = "''user@example.com''"
            and p = "''hunter2''" and t = None]]
      conjunct1 [OF C9_fullLogin_sequence [OF h2, where e = "''user@example.com''"
            and p = "''hunter2''" and t = None]]
    by (simp add: getReputation_def login.simps refreshAndSid_def getStoreToken_def
          run_simps login_posts_def)
qed

text \<open>
  Claim C10. Take a call of \<open>login\<close> whose totp is absent or empty: the call without a totp
  argument, and every retry of it, which passes the empty default on. Such a call never
  reaches the TOTP generator or the MFA endpoint; and when its credential POST fails with
  the two-factor-required error code, it fails with \<^verbatim>\<open>TOTP required for MFA login\<close>.
\<close>

theorem C10_default_totp_fails_mfa:
  fixes w e p c t b a tr tok tr1 err
  defines "captcha \<equiv> default_arg [] c" and "attempt \<equiv> default_arg (Num 0) a"
  defines "loginBody \<equiv> \<lparr>lb_password = p, lb_rememberMe = True,
                          lb_captcha = captcha, lb_email = e\<rparr>"
  assumes falsy: "default_arg [] t = []"
  shows "(case login w e p c t b a tr of
            None \<Rightarrow> True
          | Some r \<Rightarrow> mfa_calls (snd r) = mfa_calls tr) \<and>
         (getCsrf w tr = (Inr tok, tr1) \<and> \<not> js_gt attempt 5 \<and>
          on_post_login w tr1 loginBody tok = Inl err \<and>
          error_code err = Some (JString TWO_FACTOR_REQUIRED) \<longrightarrow>
          login w e p c t b a tr
            = Some (Inl (Error ''TOTP required for MFA login''),
                    tr1 @ [POST_LOGIN_ENDPOINT loginBody tok]))"
proof (intro conjI impI)
  show "case login w e p c t b a tr of
          None \<Rightarrow> True
        | Some r \<Rightarrow> mfa_calls (snd r) = mfa_calls tr"
    using login_no_mfa [OF _ falsy] by (auto split: option.splits)
next
  assume h: "getCsrf w tr = (Inr tok, tr1) \<and> \<not> js_gt attempt 5 \<and>
          on_post_login w tr1 loginBody tok = Inl err \<and>
          error_code err = Some (JString TWO_FACTOR_REQUIRED)"
  then have c: "getCsrf w tr = (Inr tok, tr1)"
    and le: "\<not> js_gt (default_arg (Num 0) a) 5" by (simp_all add: attempt_def)
  from h falsy show "login w e p c t b a tr
            = Some (Inl (Error ''TOTP required for MFA login''),
                    tr1 @ [POST_LOGIN_ENDPOINT loginBody tok])"
    by (simp add: login_step [OF c le] loginBody_def captcha_def Let_def
          two_factor_not_session_invalidated two_factor_not_captcha loginMFA_absent)
qed

text \<open>
  A call without totp in the world that always demands the second factor, and in the world
  that invalidates the session first: there the theorem is used at the retry.
\<close>

theorem C10_default_totp_fails_mfa_witness:
  "default_arg [] None = ([] :: string) \<and> default_arg [] (Some []) = ([] :: string) \<and>
   login w_two_factor ''user@example.com'' ''hunter2'' None None None None [] =
     Some (Inl (Error ''TOTP required for MFA login''),
      [GET_CSRF_ENDPOINT, POST_LOGIN_ENDPOINT \<lparr>lb_password = ''hunter2'', lb_rememberMe = True, lb_captcha = [],
                              lb_email = ''user@example.com''\<rparr> ''abc'']) \<and>
   login w_invalidated_then_two_factor ''user@example.com'' ''hunter2'' None None None None [] =
     Some (Inl (Error ''TOTP required for MFA login''),
      [GET_CSRF_ENDPOINT, POST_LOGIN_ENDPOINT \<lparr>lb_password = ''hunter2'', lb_rememberMe = True, lb_captcha = [],
                              lb_email = ''user@example.com''\<rparr> ''abc'',
       GET_CSRF_ENDPOINT, POST_LOGIN_ENDPOINT \<lparr>lb_password = ''hunter2'', lb_rememberMe = True, lb_captcha = [],
                              lb_email = ''user@example.com''\<rparr> ''abc''])"
proof -
  have f1: "default_arg [] None = ([] :: string)" and f2: "default_arg [] (Some []) = ([] :: string)"
    by simp_all
  have h4: "error_code (api_error (JString TWO_FACTOR_REQUIRED))
            = Some (JString TWO_FACTOR_REQUIRED)"
    by (simp add: api_error_def TWO_FACTOR_REQUIRED_def)
  have a1: "getCsrf w_two_factor [] = (Inr ''abc'', [GET_CSRF_ENDPOINT])"
    by simp
  have a3: "on_post_login w_two_factor [GET_CSRF_ENDPOINT]
              \<lparr>lb_password = ''hunter2'', lb_rememberMe = True,
                 lb_captcha = default_arg [] None, lb_email = ''user@example.com''\<rparr> ''abc''
            = Inl (api_error (JString TWO_FACTOR_REQUIRED))"
    by (simp add: worlds)
  have direct: "login w_two_factor ''user@example.com'' ''hunter2'' None None None None [] =
     Some (Inl (Error ''TOTP required for MFA login''),
      [GET_CSRF_ENDPOINT, POST_LOGIN_ENDPOINT \<lparr>lb_password = ''hunter2'', lb_rememberMe = True, lb_captcha = [],
                              lb_email = ''user@example.com''\<rparr> ''abc''])"
    using C10_default_totp_fails_mfa [where t = None and w = w_two_factor
            and e = "''user@example.com''" and p = "''hunter2''" and c = None and b = None
            and a = None and tr = "[]" and tok = "''abc''" and ?tr1.0 = "[GET_CSRF_ENDPOINT]"
            and err = "api_error (JString TWO_FACTOR_REQUIRED)", OF f1, THEN conjunct2]
      a1 a3 h4
    by simp
  have b1: "getCsrf w_invalidated_then_two_factor
              [GET_CSRF_ENDPOINT, POST_LOGIN_ENDPOINT \<lparr>lb_password = ''hunter2'', lb_rememberMe = True, lb_captcha = [],
                              lb_email = ''user@example.com''\<rparr> ''abc'']
            = (Inr ''abc'', [GET_CSRF_ENDPOINT, POST_LOGIN_ENDPOINT \<lparr>lb_password = ''hunter2'', lb_rememberMe = True, lb_captcha = [],
                              lb_email = ''user@example.com''\<rparr> ''abc'',
                             GET_CSRF_ENDPOINT])"
    by simp
  have b3: "on_post_login w_invalidated_then_two_factor
              [GET_CSRF_ENDPOINT, POST_LOGIN_ENDPOINT \<lparr>lb_password = ''hunter2'', lb_rememberMe = True, lb_captcha = [],
                              lb_email = ''user@example.com''\<rparr> ''abc'', GET_CSRF_ENDPOINT]
              \<lparr>lb_password = ''hunter2'', lb_rememberMe = True,
                 lb_captcha = default_arg [] (Some []), lb_email = ''user@example.com''\<rparr> ''abc''
            = Inl (api_error (JString TWO_FACTOR_REQUIRED))"
    by (simp add: worlds login_posts_def)
  have retry: "login w_invalidated_then_two_factor ''user@example.com'' ''hunter2'' (Some [])
                 (Some []) None (Some (Num 1))
                 [GET_CSRF_ENDPOINT, POST_LOGIN_ENDPOINT \<lparr>lb_password = ''hunter2'', lb_rememberMe = True, lb_captcha = [],
                              lb_email = ''user@example.com''\<rparr> ''abc''] =
     Some (Inl (Error ''TOTP required for MFA login''),
      [GET_CSRF_ENDPOINT, POST_LOGIN_ENDPOINT \<lparr>lb_password = ''hunter2'', lb_rememberMe = True, lb_captcha = [],
                              lb_email = ''user@example.com''\<rparr> ''abc'',
       GET_CSRF_ENDPOINT, POST_LOGIN_ENDPOINT \<lparr>lb_password = ''hunter2'', lb_rememberMe = True, lb_captcha = [],
                              lb_email = ''user@example.com''\<rparr> ''abc''])"
    using C10_default_totp_fails_mfa [where t = "Some []"
            and w = w_invalidated_then_two_factor
            and e = "''user@example.com''" and p = "''hunter2''" and c = "Some []" and b = None
            and a = "Some (Num 1)"
            and tr = "[GET_CSRF_ENDPOINT, POST_LOGIN_ENDPOINT \<lparr>lb_password = ''hunter2'', lb_rememberMe = True, lb_captcha = [],
                              lb_email = ''user@example.com''\<rparr> ''abc'']"
            and tok = "''abc''"
            and ?tr1.0 = "[GET_CSRF_ENDPOINT, POST_LOGIN_ENDPOINT \<lparr>lb_password = ''hunter2'', lb_rememberMe = True, lb_captcha = [],
                              lb_email = ''user@example.com''\<rparr> ''abc'', GET_CSRF_ENDPOINT]"
            and err = "api_error (JString TWO_FACTOR_REQUIRED)", OF f2, THEN conjunct2]
      b1 b3 h4
    by simp
  have first: "login w_invalidated_then_two_factor ''user@example.com'' ''hunter2'' None None None
                 None [] =
               login w_invalidated_then_two_factor ''user@example.com'' ''hunter2'' (Some [])
                 (Some []) None (Some (Num 1))
                 [GET_CSRF_ENDPOINT, POST_LOGIN_ENDPOINT \<lparr>lb_password = ''hunter2'', lb_rememberMe = True, lb_captcha = [],
                              lb_email = ''user@example.com''\<rparr> ''abc'']"
    by (subst login.simps) (simp add: run_simps login_posts_def)
  show ?thesis
    using f1 f2 direct retry first by simp
qed

end
